theory Spec2Isabelle
  imports Main "HOL-Library.AList"
begin

section \<open>OData literal escaping\<close>

text \<open>
  \<^verbatim>\<open>escapeODataLiteral(value) { return value.replace(/'/g, "''"); }\<close>

  A global replace scans the subject from left to right: it finds the next match of the
  pattern, copies the text before it, emits the replacement and goes on after the match;
  when no match is left, the remainder is copied. The pattern is the single character
  \<open>'\<close> and the replacement holds no \<open>$\<close>, so it is inserted literally.
\<close>

definition quote :: char where
  "quote = CHR 0x27"

function replace_quote_global :: "string \<Rightarrow> string" where
  "replace_quote_global s =
     (case dropWhile (\<lambda>c. c \<noteq> quote) s of
        [] \<Rightarrow> s
      | m # rest \<Rightarrow> takeWhile (\<lambda>c. c \<noteq> quote) s @ [quote, quote] @ replace_quote_global rest)"
  by pat_completeness auto

termination replace_quote_global
proof (relation "measure length")
  show "wf (measure length)" by simp
next
  fix s :: string and m rest
  assume h: "dropWhile (\<lambda>c. c \<noteq> quote) s = m # rest"
  have "length (dropWhile (\<lambda>c. c \<noteq> quote) s) \<le> length s"
    by (rule length_dropWhile_le)
  with h show "(rest, s) \<in> measure length" by simp
qed

declare replace_quote_global.simps [simp del]

definition escapeODataLiteral :: "string \<Rightarrow> string" where
  "escapeODataLiteral v = replace_quote_global v"

text \<open>The spec's wording: every single quote is doubled, every other character is kept.\<close>

definition double_each_quote_spec :: "string \<Rightarrow> string" where
  "double_each_quote_spec v = concat (map (\<lambda>c. if c = quote then [quote, quote] else [c]) v)"


section \<open>Configuration and issuers\<close>

text \<open>
  The connector's private fields read from the environment. \<open>FO_URL\<close> is held after its
  trailing slash has been removed; \<open>API_EXPECTED_AUDIENCE\<close> after its default has been
  applied.
\<close>

record config =
  TENANT_ID :: string
  API_EAS_CLIENT_ID :: string
  API_EAS_CLIENT_SECRET :: string
  FO_URL :: string
  API_EXPECTED_AUDIENCE :: string

definition ISSUER_V2 :: "config \<Rightarrow> string" where
  "ISSUER_V2 cfg = ''https://login.microsoftonline.com/'' @ TENANT_ID cfg @ ''/v2.0''"

definition ISSUER_V1 :: "config \<Rightarrow> string" where
  "ISSUER_V1 cfg = ''https://sts.windows.net/'' @ TENANT_ID cfg @ ''/''"

section \<open>Errors\<close>

text \<open>
  A rejected promise or a thrown exception is a value. The source rejects with plain
  strings (\<^verbatim>\<open>Promise.reject("...")\<close>), throws \<^verbatim>\<open>new Error("...")\<close>, and lets the
  failures of the libraries it awaits (jose's \<^verbatim>\<open>jwtVerify\<close>, \<^verbatim>\<open>fetch\<close>, \<^verbatim>\<open>resp.json()\<close>)
  pass through.
\<close>

datatype js_error =
    Rejected string
  | Thrown string
  | LibraryFailure string

definition UnexpectedIssuer :: js_error where
  "UnexpectedIssuer = Rejected ''Unexpected issuer''"

definition MissingAssertion :: js_error where
  "MissingAssertion = Rejected ''Missing user assertion for OBO''"

text \<open>A number inside a template literal is rendered in decimal.\<close>

definition digit_char :: "nat \<Rightarrow> char" where
  "digit_char d = char_of (48 + d)"

function show_nat :: "nat \<Rightarrow> string" where
  "show_nat n = (if n < 10 then [digit_char n] else show_nat (n div 10) @ [digit_char (n mod 10)])"
  by pat_completeness auto

termination show_nat
  by (relation "measure id") auto

declare show_nat.simps [simp del]

definition ExchangeError :: "nat \<Rightarrow> string \<Rightarrow> js_error" where
  "ExchangeError st errorText =
     Rejected (''OBO token exchange failed: '' @ show_nat st @ '' '' @ errorText)"

definition NetworkError :: "nat \<Rightarrow> string \<Rightarrow> js_error" where
  "NetworkError st bodyText =
     Thrown (''Network error calling F&O: '' @ show_nat st @ '' '' @ bodyText)"

section \<open>The JWT validator\<close>

text \<open>
  \<^verbatim>\<open>jwtVerify(token, keySet, {audience})\<close> is jose's: it checks the signature against a remote
  key set and the audience, and either resolves with the payload or rejects. It is a
  parameter of the model. Of the payload the code reads \<open>iss\<close>, which may be absent.
\<close>

datatype keyset = JwksV2 | JwksV1

record jwt_payload =
  iss :: "string option"
  claims :: "(string \<times> string) list"

type_synonym verifier = "string \<Rightarrow> keyset \<Rightarrow> string \<Rightarrow> string + jwt_payload"

text \<open>\<^verbatim>\<open>String(result.payload.iss)\<close>: an absent claim becomes the text \<open>undefined\<close>.\<close>

definition String_iss :: "jwt_payload \<Rightarrow> string" where
  "String_iss p = (case iss p of None \<Rightarrow> ''undefined'' | Some i \<Rightarrow> i)"

definition issuer_allowed :: "config \<Rightarrow> jwt_payload \<Rightarrow> bool" where
  "issuer_allowed cfg p = (String_iss p \<in> set [ISSUER_V2 cfg, ISSUER_V1 cfg])"

text \<open>
  \<^verbatim>\<open>
  try {
    const result = await jwtVerify(token, this.jwksV2, { audience });
    if ([ISSUER_V2, ISSUER_V1].includes(String(result.payload.iss))) return result.payload;
  } catch { }
  const result = await jwtVerify(token, this.jwksV1, { audience });
  if ([ISSUER_V2, ISSUER_V1].includes(String(result.payload.iss))) return result.payload;
  return Promise.reject("Unexpected issuer");
  \<close>
  The second \<^verbatim>\<open>jwtVerify\<close> stands outside the \<^verbatim>\<open>try\<close>: its rejection is the function's.
\<close>

definition first_attempt :: "verifier \<Rightarrow> config \<Rightarrow> string \<Rightarrow> jwt_payload option" where
  "first_attempt jwtVerify cfg token =
     (case jwtVerify token JwksV2 (API_EXPECTED_AUDIENCE cfg) of
        Inl e \<Rightarrow> None
      | Inr p \<Rightarrow> if issuer_allowed cfg p then Some p else None)"

definition validateInboundJwt :: "verifier \<Rightarrow> config \<Rightarrow> string \<Rightarrow> js_error + jwt_payload" where
  "validateInboundJwt jwtVerify cfg token =
     (case first_attempt jwtVerify cfg token of
        Some p \<Rightarrow> Inr p
      | None \<Rightarrow>
          (case jwtVerify token JwksV1 (API_EXPECTED_AUDIENCE cfg) of
             Inl e \<Rightarrow> Inl (LibraryFailure e)
           | Inr p \<Rightarrow> if issuer_allowed cfg p then Inr p else Inl UnexpectedIssuer))"

section \<open>HTTP requests and responses\<close>

text \<open>
  A \<^verbatim>\<open>Headers\<close> object keeps one value per name and compares names without regard to
  case: an association list keyed by the lower-cased name.
\<close>

definition lower_char :: "char \<Rightarrow> char" where
  "lower_char c =
     (if 65 \<le> (of_char c :: nat) \<and> (of_char c :: nat) \<le> 90 then char_of ((of_char c :: nat) + 32) else c)"

definition lower_str :: "string \<Rightarrow> string" where
  "lower_str s = map lower_char s"

type_synonym Headers = "(string \<times> string) list"

definition headers_get :: "Headers \<Rightarrow> string \<Rightarrow> string option" where
  "headers_get h name = map_of h (lower_str name)"

definition headers_set :: "Headers \<Rightarrow> string \<Rightarrow> string \<Rightarrow> Headers" where
  "headers_set h name v = AList.update (lower_str name) v h"

definition headers_append :: "Headers \<Rightarrow> string \<times> string \<Rightarrow> Headers" where
  "headers_append h kv =
     (case headers_get h (fst kv) of
        None \<Rightarrow> h @ [(lower_str (fst kv), snd kv)]
      | Some old \<Rightarrow> headers_set h (fst kv) (old @ '', '' @ snd kv))"

definition headers_new :: "(string \<times> string) list \<Rightarrow> Headers" where
  "headers_new entries = foldl headers_append [] entries"

text \<open>
  A request body is either the form parameters of a \<^verbatim>\<open>URLSearchParams\<close> (sent as their
  urlencoded text) or a text.
\<close>

datatype http_body = Form "(string \<times> string) list" | Text string

record http_request =
  req_url :: string
  req_method :: string
  req_headers :: Headers
  req_body :: "http_body option"

text \<open>
  A response: its status, its body read as text, and its body decoded as JSON
  (\<open>Inl\<close> when \<^verbatim>\<open>resp.json()\<close> rejects). The body has arrived in full, so
  \<^verbatim>\<open>resp.text()\<close> always resolves. \<^verbatim>\<open>resp.ok\<close> is true for the statuses 200 to 299.
\<close>

record 'j http_response =
  resp_status :: nat
  resp_text :: string
  resp_json :: "string + 'j"

definition resp_ok :: "'j http_response \<Rightarrow> bool" where
  "resp_ok r = (200 \<le> resp_status r \<and> resp_status r \<le> 299)"

datatype 'j fetch_result = FetchRejects string | Resolves "'j http_response"

text \<open>The token endpoint's JSON, as the code casts it.\<close>

record token_json =
  access_token :: string
  expires_in :: "int option"

text \<open>What an operation does to the outside, in order.\<close>

datatype effect =
    TokenExchange http_request
  | Downstream http_request
  | ConsoleError string

definition exchange_calls :: "effect list \<Rightarrow> http_request list" where
  "exchange_calls log = concat (map (\<lambda>e. case e of TokenExchange r \<Rightarrow> [r] | _ \<Rightarrow> []) log)"

definition downstream_calls :: "effect list \<Rightarrow> http_request list" where
  "downstream_calls log = concat (map (\<lambda>e. case e of Downstream r \<Rightarrow> [r] | _ \<Rightarrow> []) log)"

definition network_calls :: "effect list \<Rightarrow> http_request list" where
  "network_calls log =
     concat (map (\<lambda>e. case e of TokenExchange r \<Rightarrow> [r] | Downstream r \<Rightarrow> [r] | _ \<Rightarrow> []) log)"

section \<open>The connector and its surroundings\<close>

text \<open>
  The mutable fields of \<^verbatim>\<open>D365Connector\<close>: the shared \<^verbatim>\<open>userToken\<close> and the
  \<^verbatim>\<open>oboCache\<close> map.
\<close>

record cached =
  accessToken :: string
  expiresAt :: int

record connector =
  userToken :: string
  oboCache :: "string \<rightharpoonup> cached"

definition new_connector :: connector where
  "new_connector = \<lparr>userToken = [], oboCache = Map.empty\<rparr>"

text \<open>
  What lies outside the code, at the moment of one operation: the SHA-256 hex digest of
  \<^verbatim>\<open>node:crypto\<close>, the clock (\<^verbatim>\<open>Math.floor(Date.now() / 1000)\<close>), jose's verifier, and
  \<^verbatim>\<open>fetch\<close> towards the identity provider's token endpoint and towards F&O (two
  functions, since the code decodes the two JSON bodies at different types).
\<close>

record 'j world =
  sha256_hex :: "string \<Rightarrow> string"
  now_seconds :: int
  jwtVerify :: verifier
  idp_fetch :: "http_request \<Rightarrow> token_json fetch_result"
  fo_fetch :: "http_request \<Rightarrow> 'j fetch_result"

definition getCurrentContext :: "connector \<Rightarrow> string" where
  "getCurrentContext st = userToken st"

definition setToken :: "connector \<Rightarrow> string \<Rightarrow> connector" where
  "setToken st token = st\<lparr>userToken := token\<rparr>"

section \<open>Token cache and OBO exchange\<close>

definition cacheKey :: "'j world \<Rightarrow> config \<Rightarrow> string \<Rightarrow> string" where
  "cacheKey w cfg assertionJwt = sha256_hex w (assertionJwt @ ''|'' @ FO_URL cfg)"

definition token_request :: "config \<Rightarrow> string \<Rightarrow> http_request" where
  "token_request cfg assertionJwt =
     \<lparr>req_url = ''https://login.microsoftonline.com/'' @ TENANT_ID cfg @ ''/oauth2/v2.0/token'',
      req_method = ''POST'',
      req_headers = headers_new [(''Content-Type'', ''application/x-www-form-urlencoded'')],
      req_body = Some (Form
        [(''client_id'', API_EAS_CLIENT_ID cfg),
         (''client_secret'', API_EAS_CLIENT_SECRET cfg),
         (''grant_type'', ''urn:ietf:params:oauth:grant-type:jwt-bearer''),
         (''requested_token_use'', ''on_behalf_of''),
         (''scope'', FO_URL cfg @ ''/.default''),
         (''assertion'', assertionJwt)])\<rparr>"

text \<open>\<^verbatim>\<open>json.expires_in || 3600\<close>: the default replaces an absent value and also 0.\<close>

definition or_default :: "int option \<Rightarrow> int \<Rightarrow> int" where
  "or_default x d = (case x of None \<Rightarrow> d | Some v \<Rightarrow> if v = 0 then d else v)"

text \<open>\<^verbatim>\<open>cached && cached.expiresAt - 60 > now\<close>\<close>

definition cache_hit :: "connector \<Rightarrow> string \<Rightarrow> int \<Rightarrow> string option" where
  "cache_hit st key now =
     (case oboCache st key of
        None \<Rightarrow> None
      | Some c \<Rightarrow> if expiresAt c - 60 > now then Some (accessToken c) else None)"

definition getFoAccessTokenFromObo ::
  "'j world \<Rightarrow> config \<Rightarrow> connector \<Rightarrow> string \<Rightarrow> (js_error + string) \<times> connector \<times> effect list" where
  "getFoAccessTokenFromObo w cfg st assertionJwt =
     (let key = cacheKey w cfg assertionJwt;
          now = now_seconds w
      in case cache_hit st key now of
           Some tok \<Rightarrow> (Inr tok, st, [])
         | None \<Rightarrow>
             (let rq = token_request cfg assertionJwt
              in case idp_fetch w rq of
                   FetchRejects e \<Rightarrow> (Inl (LibraryFailure e), st, [TokenExchange rq])
                 | Resolves tokenResp \<Rightarrow>
                     if \<not> resp_ok tokenResp
                     then (Inl (ExchangeError (resp_status tokenResp) (resp_text tokenResp)),
                           st, [TokenExchange rq])
                     else (case resp_json tokenResp of
                             Inl e \<Rightarrow> (Inl (LibraryFailure e), st, [TokenExchange rq])
                           | Inr json \<Rightarrow>
                               (let expAt = now + or_default (expires_in json) 3600
                                in (Inr (access_token json),
                                    st\<lparr>oboCache := (oboCache st)
                                         (key \<mapsto> \<lparr>accessToken = access_token json, expiresAt = expAt\<rparr>)\<rparr>,
                                    [TokenExchange rq])))))"

section \<open>The CRUD proxy\<close>

text \<open>
  The optional second argument of \<^verbatim>\<open>fetchFo\<close>, a \<^verbatim>\<open>RequestInit\<close>. The callers in this
  class pass \<open>method\<close> and sometimes \<open>body\<close>; the body is the text that
  \<^verbatim>\<open>JSON.stringify(data)\<close> produced (\<open>None\<close> when it produced \<open>undefined\<close>).
\<close>

record request_init =
  init_method :: "string option"
  init_headers :: "(string \<times> string) list"
  init_body :: "string option"

definition truthy_str :: "string option \<Rightarrow> bool" where
  "truthy_str x = (case x of None \<Rightarrow> False | Some s \<Rightarrow> s \<noteq> [])"

definition startsWith :: "string \<Rightarrow> string \<Rightarrow> bool" where
  "startsWith s p = (take (length p) s = p)"

definition fo_request :: "config \<Rightarrow> string \<Rightarrow> request_init option \<Rightarrow> string \<Rightarrow> http_request" where
  "fo_request cfg pathname init foToken =
     (let url = FO_URL cfg @ (if startsWith pathname ''/'' then [] else ''/'') @ pathname;
          h0 = headers_new (case init of None \<Rightarrow> [] | Some i \<Rightarrow> init_headers i);
          h1 = headers_set h0 ''Authorization'' (''Bearer '' @ foToken);
          h2 = headers_set h1 ''Accept'' ''application/json'';
          h3 = (if truthy_str (case init of None \<Rightarrow> None | Some i \<Rightarrow> init_body i)
                   \<and> \<not> truthy_str (headers_get h2 ''Content-Type'')
                then headers_set h2 ''Content-Type'' ''application/json'' else h2)
      in \<lparr>req_url = url,
          req_method = (case init of None \<Rightarrow> ''GET''
                        | Some i \<Rightarrow> (case init_method i of None \<Rightarrow> ''GET'' | Some m \<Rightarrow> m)),
          req_headers = h3,
          req_body = (case init of None \<Rightarrow> None | Some i \<Rightarrow> map_option Text (init_body i))\<rparr>)"

definition fetchFo ::
  "'j world \<Rightarrow> config \<Rightarrow> connector \<Rightarrow> string \<Rightarrow> request_init option
     \<Rightarrow> (js_error + 'j http_response) \<times> connector \<times> effect list" where
  "fetchFo w cfg st pathname init =
     (let ctx = getCurrentContext st
      in if ctx = [] then (Inl MissingAssertion, st, [])
         else (case getFoAccessTokenFromObo w cfg st ctx of
                 (Inl e, st', log) \<Rightarrow> (Inl e, st', log)
               | (Inr foToken, st', log) \<Rightarrow>
                   (let rq = fo_request cfg pathname init foToken
                    in case fo_fetch w rq of
                         FetchRejects e \<Rightarrow> (Inl (LibraryFailure e), st', log @ [Downstream rq])
                       | Resolves resp \<Rightarrow> (Inr resp, st', log @ [Downstream rq]))))"

text \<open>
  What a CRUD method resolves with: the error object \<^verbatim>\<open>{ error: "..." }\<close>, the decoded
  JSON of the response, or (for \<^verbatim>\<open>readRecord\<close>) the response itself.
\<close>

datatype 'j proxy_value =
    ErrorValue string
  | Payload 'j
  | RawResponse "'j http_response"

text \<open>
  \<^verbatim>\<open>createRecord\<close>, \<^verbatim>\<open>updateRecord\<close> and \<^verbatim>\<open>deleteRecord\<close> end with the same statements,
  which differ in the verb of the message only:
  \<^verbatim>\<open>
  if (!resp.ok) {
    console.error(`Create failed: ${resp.status} ${await resp.text()}`);
    return { error: `Create failed: ${resp.status}` };
  }
  return await resp.json();
  \<close>
\<close>

definition write_outcome ::
  "string \<Rightarrow> (js_error + 'j http_response) \<times> connector \<times> effect list
     \<Rightarrow> (js_error + 'j proxy_value) \<times> connector \<times> effect list" where
  "write_outcome verb r =
     (case r of
        (Inl e, st', log) \<Rightarrow> (Inl e, st', log)
      | (Inr resp, st', log) \<Rightarrow>
          if \<not> resp_ok resp
          then (Inr (ErrorValue (verb @ '' failed: '' @ show_nat (resp_status resp))), st',
                log @ [ConsoleError (verb @ '' failed: '' @ show_nat (resp_status resp)
                                       @ '' '' @ resp_text resp)])
          else (case resp_json resp of
                  Inl e \<Rightarrow> (Inl (LibraryFailure e), st', log)
                | Inr j \<Rightarrow> (Inr (Payload j), st', log)))"

definition createRecord ::
  "'j world \<Rightarrow> config \<Rightarrow> connector \<Rightarrow> string \<Rightarrow> string option
     \<Rightarrow> (js_error + 'j proxy_value) \<times> connector \<times> effect list" where
  "createRecord w cfg st entityName data =
     write_outcome ''Create''
       (fetchFo w cfg st (''/data/'' @ entityName)
          (Some \<lparr>init_method = Some ''POST'', init_headers = [], init_body = data\<rparr>))"

definition read_url :: "string \<Rightarrow> string option \<Rightarrow> string" where
  "read_url entityName query =
     (case query of
        None \<Rightarrow> ''/data/'' @ entityName
      | Some q \<Rightarrow> if q \<noteq> [] then ''/data/'' @ entityName @ ''?'' @ q
                  else ''/data/'' @ entityName)"

definition readRecord ::
  "'j world \<Rightarrow> config \<Rightarrow> connector \<Rightarrow> string \<Rightarrow> string option
     \<Rightarrow> (js_error + 'j proxy_value) \<times> connector \<times> effect list" where
  "readRecord w cfg st entityName query =
     (let url = read_url entityName query
      in case fetchFo w cfg st url
                (Some \<lparr>init_method = Some ''GET'', init_headers = [], init_body = None\<rparr>) of
           (Inl e, st', log) \<Rightarrow> (Inl e, st', log)
         | (Inr resp, st', log) \<Rightarrow>
             if \<not> resp_ok resp
             then (Inl (NetworkError (resp_status resp) (resp_text resp)), st', log)
             else (Inr (RawResponse resp), st', log))"

definition updateRecord ::
  "'j world \<Rightarrow> config \<Rightarrow> connector \<Rightarrow> string \<Rightarrow> string \<Rightarrow> string option
     \<Rightarrow> (js_error + 'j proxy_value) \<times> connector \<times> effect list" where
  "updateRecord w cfg st entityName key data =
     write_outcome ''Update''
       (fetchFo w cfg st (''/data/'' @ entityName @ ''('' @ key @ '')'')
          (Some \<lparr>init_method = Some ''PATCH'', init_headers = [], init_body = data\<rparr>))"

definition deleteRecord ::
  "'j world \<Rightarrow> config \<Rightarrow> connector \<Rightarrow> string \<Rightarrow> string
     \<Rightarrow> (js_error + 'j proxy_value) \<times> connector \<times> effect list" where
  "deleteRecord w cfg st entityName key =
     write_outcome ''Delete''
       (fetchFo w cfg st (''/data/'' @ entityName @ ''('' @ key @ '')'')
          (Some \<lparr>init_method = Some ''DELETE'', init_headers = [], init_body = None\<rparr>))"

section \<open>The Authorization header\<close>

text \<open>
  \<^verbatim>\<open>req.headers["authorization"]\<close> is typed \<^verbatim>\<open>string | string[] | undefined\<close>. Node decodes
  header bytes as Latin-1, so every character of the string is one \<^typ>\<open>char\<close>.
\<close>

datatype header_value = Absent | One string | Many "string list"

text \<open>
  \<^verbatim>\<open>/^Bearer\s+(.+)$/i.exec(auth)\<close>, returning the first group. Within Latin-1, \<^verbatim>\<open>\s\<close>
  matches tab, line feed, vertical tab, form feed, carriage return, space and the
  no-break space; \<^verbatim>\<open>.\<close> matches every character but line feed and carriage return.
  \<^verbatim>\<open>\s+\<close> is greedy: it takes the whole run of white space and gives characters back
  only when the group would otherwise be empty.
\<close>

definition is_space :: "char \<Rightarrow> bool" where
  "is_space c = ((of_char c :: nat) \<in> set [9, 10, 11, 12, 13, 32, 160])"

definition is_line_terminator :: "char \<Rightarrow> bool" where
  "is_line_terminator c = ((of_char c :: nat) \<in> set [10, 13])"

definition bearer_match :: "string \<Rightarrow> string option" where
  "bearer_match auth =
     (if lower_str (take 6 auth) = ''bearer''
      then (let rest = drop 6 auth;
                ws = takeWhile is_space rest;
                tail = dropWhile is_space rest
            in if ws = [] then None
               else if tail \<noteq> []
               then (if list_all (\<lambda>c. \<not> is_line_terminator c) tail then Some tail else None)
               else if 2 \<le> length ws \<and> \<not> is_line_terminator (last ws) then Some [last ws]
               else None)
      else None)"

section \<open>The auth middleware\<close>

text \<open>The JSON the middleware answers with, and the store it runs the next handler in.\<close>

record rejection =
  isSuccess :: bool
  message :: string

record als_store =
  userAssertionJwt :: "string option"

text \<open>
  The outcome of one run: the response sent (status and JSON), the store
  \<^verbatim>\<open>requestContext.run\<close> called \<^verbatim>\<open>next()\<close> in (\<open>None\<close> when \<^verbatim>\<open>next\<close> was not called), and
  the console lines.
\<close>

record mw_outcome =
  sent :: "(nat \<times> rejection) option"
  next_called_in :: "als_store option"
  console :: "string list"

definition reject_with :: "string \<Rightarrow> mw_outcome" where
  "reject_with msg =
     \<lparr>sent = Some (200, \<lparr>isSuccess = False, message = msg\<rparr>), next_called_in = None, console = []\<rparr>"

text \<open>
  \<^verbatim>\<open>
  this.validateInboundJwt(token)
    .then(() => this.requestContext.run({ userAssertionJwt: token }, () => next()))
    .catch((err) => { console.error("JWT validation failed", err);
                      return res.status(200).json({ isSuccess: false, message: "Unauthorized - ..." }); });
  \<close>
  The \<^verbatim>\<open>catch\<close> follows the \<^verbatim>\<open>then\<close>, so it also handles an exception that \<^verbatim>\<open>next()\<close>
  throws; \<open>next\<close> returns that exception, if any. The middleware does not touch the
  connector's \<^verbatim>\<open>userToken\<close>.
\<close>

definition authMiddleware ::
  "verifier \<Rightarrow> config \<Rightarrow> (als_store \<Rightarrow> string option) \<Rightarrow> header_value \<Rightarrow> mw_outcome" where
  "authMiddleware verify cfg next auth =
     (case auth of
        Absent \<Rightarrow> reject_with ''Missing Authorization header''
      | Many hs \<Rightarrow> reject_with ''Missing Authorization header''
      | One a \<Rightarrow>
          if a = [] then reject_with ''Missing Authorization header''
          else (case bearer_match a of
                  None \<Rightarrow> reject_with ''Invalid Authorization header''
                | Some token \<Rightarrow>
                    if token = [] then reject_with ''Missing token''
                    else (case validateInboundJwt verify cfg token of
                            Inl err \<Rightarrow>
                              (reject_with ''Unauthorized - Invalid or expired token'')
                                \<lparr>console := [''JWT validation failed'']\<rparr>
                          | Inr payload \<Rightarrow>
                              (let store = \<lparr>userAssertionJwt = Some token\<rparr>
                               in case next store of
                                    None \<Rightarrow> \<lparr>sent = None, next_called_in = Some store, console = []\<rparr>
                                  | Some err \<Rightarrow>
                                      \<lparr>sent = Some (200, \<lparr>isSuccess = False,
                                                message = ''Unauthorized - Invalid or expired token''\<rparr>),
                                       next_called_in = Some store,
                                       console = [''JWT validation failed'']\<rparr>))))"

section \<open>The route handlers that call the connector\<close>

text \<open>
  The routes of \<^verbatim>\<open>/api/d365\<close> share one connector. \<^verbatim>\<open>GET /records/:entityName\<close> calls
  \<^verbatim>\<open>d365.setToken(userToken)\<close> and then \<^verbatim>\<open>d365.readRecord\<close>; \<^verbatim>\<open>POST /records/:entityName\<close>
  extracts its token too but calls \<^verbatim>\<open>d365.createRecord\<close> without \<^verbatim>\<open>setToken\<close>.
  \<^verbatim>\<open>error.message\<close> of a rejection with a plain string is \<open>undefined\<close>.
\<close>

datatype 'j reply_body =
    ErrorBody "string option"
  | DataBody 'j
  | ResultBody "'j proxy_value"

definition error_message :: "js_error \<Rightarrow> string option" where
  "error_message e = (case e of Rejected s \<Rightarrow> None | Thrown m \<Rightarrow> Some m | LibraryFailure m \<Rightarrow> Some m)"

definition header_token :: "header_value \<Rightarrow> (string + string)" where
  "header_token auth =
     (case auth of
        Absent \<Rightarrow> Inl ''Missing Authorization header''
      | Many hs \<Rightarrow> Inl ''Missing Authorization header''
      | One a \<Rightarrow>
          if a = [] then Inl ''Missing Authorization header''
          else (case bearer_match a of
                  None \<Rightarrow> Inl ''Invalid Authorization header''
                | Some t \<Rightarrow> if t = [] then Inl ''Invalid Authorization header'' else Inr t))"

definition get_records ::
  "'j world \<Rightarrow> config \<Rightarrow> connector \<Rightarrow> string \<Rightarrow> string option \<Rightarrow> header_value
     \<Rightarrow> (nat \<times> 'j reply_body) \<times> connector \<times> effect list" where
  "get_records w cfg st entityName query auth =
     (if entityName = [] then ((400, ErrorBody (Some ''Entity name is required'')), st, [])
      else (case header_token auth of
              Inl msg \<Rightarrow> ((401, ErrorBody (Some msg)), st, [])
            | Inr bearer \<Rightarrow>
                (case readRecord w cfg (setToken st bearer) entityName query of
                   (Inl e, st', log) \<Rightarrow> ((500, ErrorBody (error_message e)), st', log)
                 | (Inr (RawResponse response), st', log) \<Rightarrow>
                     (case resp_json response of
                        Inl e \<Rightarrow> ((500, ErrorBody (Some e)), st', log)
                      | Inr data \<Rightarrow> ((200, DataBody data), st', log))
                 | (Inr v, st', log) \<Rightarrow> ((200, ResultBody v), st', log))))"

definition post_records ::
  "'j world \<Rightarrow> config \<Rightarrow> connector \<Rightarrow> string \<Rightarrow> string option \<Rightarrow> header_value
     \<Rightarrow> (nat \<times> 'j reply_body) \<times> connector \<times> effect list" where
  "post_records w cfg st entityName data auth =
     (if entityName = [] then ((400, ErrorBody (Some ''Entity name is required'')), st, [])
      else (case header_token auth of
              Inl msg \<Rightarrow> ((401, ErrorBody (Some msg)), st, [])
            | Inr bearer \<Rightarrow>
                (case createRecord w cfg st entityName data of
                   (Inl e, st', log) \<Rightarrow> ((500, ErrorBody (error_message e)), st', log)
                 | (Inr result, st', log) \<Rightarrow> ((200, ResultBody result), st', log))))"

section \<open>Words of the specification, and example surroundings\<close>



text \<open>A configuration and a verifier to evaluate the model on.\<close>

definition example_config :: config where
  "example_config =
     \<lparr>TENANT_ID = ''contoso'', API_EAS_CLIENT_ID = ''client-1'',
      API_EAS_CLIENT_SECRET = ''secret-1'', FO_URL = ''https://fo.example'',
      API_EXPECTED_AUDIENCE = ''api://client-1''\<rparr>"

definition example_verifier :: verifier where
  "example_verifier token ks aud =
     (if token = ''good-v2'' \<and> ks = JwksV2
      then Inr \<lparr>iss = Some (ISSUER_V2 example_config), claims = []\<rparr>
      else if token = ''good-v1'' \<and> ks = JwksV1
      then Inr \<lparr>iss = Some (ISSUER_V1 example_config), claims = []\<rparr>
      else if token = ''foreign''
      then Inr \<lparr>iss = Some ''https://sts.windows.net/other-tenant/'', claims = []\<rparr>
      else Inl ''signature verification failed'')"

text \<open>
  An identity provider that answers every exchange with a token naming the assertion it
  was given, valid for an hour; an F&O service that answers 400 and one that answers 200;
  a stand-in for the digest, for evaluation only.
\<close>

definition assertion_of :: "http_request \<Rightarrow> string" where
  "assertion_of rq =
     (case req_body rq of
        Some (Form ps) \<Rightarrow> (case map_of ps ''assertion'' of Some a \<Rightarrow> a | None \<Rightarrow> [])
      | _ \<Rightarrow> [])"

definition example_idp :: "http_request \<Rightarrow> token_json fetch_result" where
  "example_idp rq =
     Resolves \<lparr>resp_status = 200, resp_text = [],
               resp_json = Inr \<lparr>access_token = ''fo-token-for-'' @ assertion_of rq,
                                expires_in = Some 3600\<rparr>\<rparr>"

definition example_fo_400 :: "http_request \<Rightarrow> string fetch_result" where
  "example_fo_400 rq =
     Resolves \<lparr>resp_status = 400, resp_text = ''Bad Request'', resp_json = Inr ''{}''\<rparr>"

definition example_fo_200 :: "http_request \<Rightarrow> string fetch_result" where
  "example_fo_200 rq =
     Resolves \<lparr>resp_status = 200, resp_text = ''{}'', resp_json = Inr ''{}''\<rparr>"

definition example_digest :: "string \<Rightarrow> string" where
  "example_digest s = show_nat (sum_list (map of_char s) mod 65536)"

definition example_world :: "int \<Rightarrow> (http_request \<Rightarrow> string fetch_result) \<Rightarrow> string world" where
  "example_world now fo =
     \<lparr>sha256_hex = example_digest, now_seconds = now, jwtVerify = example_verifier,
      idp_fetch = example_idp, fo_fetch = fo\<rparr>"

text \<open>Two different inputs with the same digest.\<close>

definition digest_collision :: "(string \<Rightarrow> string) \<Rightarrow> string \<Rightarrow> string \<Rightarrow> bool" where
  "digest_collision d x y = (x \<noteq> y \<and> d x = d y)"

text \<open>The spec's condition for a refresh: no entry for the fingerprint, or one with
  \<open>expiresAt - 60 \<le> now\<close>.\<close>

definition needs_refresh :: "connector \<Rightarrow> string \<Rightarrow> int \<Rightarrow> bool" where
  "needs_refresh st key now =
     (case oboCache st key of None \<Rightarrow> True | Some c \<Rightarrow> expiresAt c - 60 \<le> now)"

text \<open>The spec's validity window: an entry for the fingerprint with \<open>expiresAt - 60 > now\<close>.\<close>

definition within_window :: "connector \<Rightarrow> string \<Rightarrow> int \<Rightarrow> bool" where
  "within_window st key now =
     (case oboCache st key of None \<Rightarrow> False | Some c \<Rightarrow> expiresAt c - 60 > now)"

text \<open>An identity provider whose token expires in 0 seconds, and one that answers 401.\<close>

definition example_idp_zero :: "http_request \<Rightarrow> token_json fetch_result" where
  "example_idp_zero rq =
     Resolves \<lparr>resp_status = 200, resp_text = [],
               resp_json = Inr \<lparr>access_token = ''fo-token-for-'' @ assertion_of rq,
                                expires_in = Some 0\<rparr>\<rparr>"

definition example_idp_401 :: "http_request \<Rightarrow> token_json fetch_result" where
  "example_idp_401 rq =
     Resolves \<lparr>resp_status = 401, resp_text = ''invalid_grant'',
               resp_json = Inl ''not JSON''\<rparr>"

text \<open>
  The spec's header shape, \<open>Bearer <token>\<close>: the scheme in any letter case, white space,
  and a non-empty token (which, as the pattern's \<^verbatim>\<open>.\<close> demands, holds no line terminator).
\<close>

definition bearer_header_spec :: "string \<Rightarrow> bool" where
  "bearer_header_spec a =
     (\<exists>scheme ws t. a = scheme @ ws @ t \<and> lower_str scheme = ''bearer''
        \<and> ws \<noteq> [] \<and> list_all is_space ws
        \<and> t \<noteq> [] \<and> list_all (\<lambda>c. \<not> is_line_terminator c) t)"

text \<open>A next handler that returns normally.\<close>

definition next_returns :: "als_store \<Rightarrow> string option" where
  "next_returns store = None"

section \<open>Properties of the escaping\<close>

lemma spec_append:
  "double_each_quote_spec (a @ b) = double_each_quote_spec a @ double_each_quote_spec b"
  by (simp add: double_each_quote_spec_def)

lemma spec_quote_free: "quote \<notin> set v \<Longrightarrow> double_each_quote_spec v = v"
  by (induction v) (auto simp: double_each_quote_spec_def)

lemma spec_Cons_quote:
  "double_each_quote_spec (quote # v) = quote # quote # double_each_quote_spec v"
  by (simp add: double_each_quote_spec_def)

lemma replace_eq_spec: "replace_quote_global s = double_each_quote_spec s"
proof (induction s rule: replace_quote_global.induct)
  case (1 s)
  let ?P = "\<lambda>c. c \<noteq> quote"
  show ?case
  proof (cases "dropWhile ?P s")
    case Nil
    then have "\<forall>x\<in>set s. x \<noteq> quote" by (simp add: dropWhile_eq_Nil_conv)
    then have "double_each_quote_spec s = s" by (intro spec_quote_free) auto
    moreover have "replace_quote_global s = s"
      by (subst replace_quote_global.simps) (simp add: Nil)
    ultimately show ?thesis by simp
  next
    case (Cons m rest)
    have m: "m = quote"
      using hd_dropWhile [of ?P s] Cons by auto
    have split: "s = takeWhile ?P s @ quote # rest"
      using takeWhile_dropWhile_id [of ?P s] Cons m by simp
    have free: "quote \<notin> set (takeWhile ?P s)"
      by (auto dest: set_takeWhileD)
    have "replace_quote_global s = takeWhile ?P s @ [quote, quote] @ replace_quote_global rest"
      by (subst replace_quote_global.simps) (simp add: Cons)
    also have "\<dots> = takeWhile ?P s @ [quote, quote] @ double_each_quote_spec rest"
      using "1.IH" [OF Cons] by simp
    also have "\<dots> = double_each_quote_spec (takeWhile ?P s @ quote # rest)"
      by (simp add: spec_append spec_quote_free [OF free] spec_Cons_quote)
    also have "\<dots> = double_each_quote_spec s"
      using split by simp
    finally show ?thesis .
  qed
qed

text \<open>
  C9. For every string, \<open>escapeODataLiteral\<close> returns the string in which each single
  quote is replaced by two single quotes and every other character is unchanged. In
  particular \<open>O'Brien\<close> becomes \<open>O''Brien\<close>, the empty string stays empty, and a string
  without a quote is returned as it is.
\<close>

theorem escapeODataLiteral_doubles_quotes:
  "escapeODataLiteral v = double_each_quote_spec v
   \<and> escapeODataLiteral (''O'' @ [quote] @ ''Brien'') = ''O'' @ [quote, quote] @ ''Brien''
   \<and> escapeODataLiteral [] = []
   \<and> (quote \<notin> set v \<longrightarrow> escapeODataLiteral v = v)"
proof -
  have eq: "\<And>u. escapeODataLiteral u = double_each_quote_spec u"
    by (simp add: escapeODataLiteral_def replace_eq_spec)
  have "double_each_quote_spec (''O'' @ [quote] @ ''Brien'') = ''O'' @ [quote, quote] @ ''Brien''"
    by (simp add: double_each_quote_spec_def quote_def)
  moreover have "double_each_quote_spec [] = []"
    by (simp add: double_each_quote_spec_def)
  ultimately show ?thesis
    by (simp add: eq spec_quote_free)
qed

theorem escapeODataLiteral_doubles_quotes_witness:
  "quote \<notin> set ''no quotes'' \<and> escapeODataLiteral ''no quotes'' = ''no quotes''"
proof -
  have free: "quote \<notin> set ''no quotes''" by (simp add: quote_def)
  with escapeODataLiteral_doubles_quotes [of "''no quotes''"] show ?thesis by blast
qed

section \<open>Properties of the validator\<close>







section \<open>Properties of the token cache\<close>

lemma cache_hit_None_iff: "cache_hit st key now = None \<longleftrightarrow> needs_refresh st key now"
  by (auto simp: cache_hit_def needs_refresh_def split: option.splits)

lemma window_cache_hit:
  "within_window st key now \<Longrightarrow> \<exists>c. oboCache st key = Some c \<and> cache_hit st key now = Some (accessToken c)"
  by (auto simp: cache_hit_def within_window_def split: option.splits)

lemma getFo_hit:
  "cache_hit st (cacheKey w cfg a) (now_seconds w) = Some t
     \<Longrightarrow> getFoAccessTokenFromObo w cfg st a = (Inr t, st, [])"
  by (simp add: getFoAccessTokenFromObo_def Let_def)

lemma getFo_miss:
  "needs_refresh st (cacheKey w cfg a) (now_seconds w) \<Longrightarrow>
   getFoAccessTokenFromObo w cfg st a =
     (case idp_fetch w (token_request cfg a) of
        FetchRejects e \<Rightarrow> (Inl (LibraryFailure e), st, [TokenExchange (token_request cfg a)])
      | Resolves r \<Rightarrow>
          if \<not> resp_ok r
          then (Inl (ExchangeError (resp_status r) (resp_text r)), st,
                [TokenExchange (token_request cfg a)])
          else (case resp_json r of
                  Inl e \<Rightarrow> (Inl (LibraryFailure e), st, [TokenExchange (token_request cfg a)])
                | Inr j \<Rightarrow>
                    (Inr (access_token j),
                     st\<lparr>oboCache := (oboCache st)
                          (cacheKey w cfg a \<mapsto>
                             \<lparr>accessToken = access_token j,
                              expiresAt = now_seconds w + or_default (expires_in j) 3600\<rparr>)\<rparr>,
                     [TokenExchange (token_request cfg a)])))"
  by (simp add: getFoAccessTokenFromObo_def Let_def cache_hit_None_iff [symmetric]
        split: fetch_result.splits sum.splits)

lemma hit_or_refresh:
  "(\<exists>t. cache_hit st key now = Some t) \<or> needs_refresh st key now"
  by (cases "cache_hit st key now") (auto simp: cache_hit_None_iff)

lemma getFo_success_entry:
  assumes "getFoAccessTokenFromObo w cfg st a = (Inr tok, st1, log1)"
      and "oboCache st1 (cacheKey w cfg a) = Some c"
  shows "accessToken c = tok"
proof -
  from hit_or_refresh [of st "cacheKey w cfg a" "now_seconds w"] show ?thesis
  proof
    assume "\<exists>t. cache_hit st (cacheKey w cfg a) (now_seconds w) = Some t"
    then obtain t where t: "cache_hit st (cacheKey w cfg a) (now_seconds w) = Some t" ..
    from getFo_hit [OF t] assms(1) have "tok = t" "st1 = st" by simp_all
    with t assms(2) show ?thesis
      by (auto simp: cache_hit_def split: if_splits)
  next
    assume "needs_refresh st (cacheKey w cfg a) (now_seconds w)"
    from getFo_miss [OF this] assms show ?thesis
      by (auto split: fetch_result.splits if_splits sum.splits)
  qed
qed

lemma getFo_log_length:
  "length (exchange_calls (snd (snd (getFoAccessTokenFromObo w cfg st a)))) =
     (if needs_refresh st (cacheKey w cfg a) (now_seconds w) then 1 else 0)"
proof (cases "needs_refresh st (cacheKey w cfg a) (now_seconds w)")
  case True
  from getFo_miss [OF True] show ?thesis using True
    by (auto simp: exchange_calls_def split: fetch_result.splits sum.splits)
next
  case False
  then obtain t where "cache_hit st (cacheKey w cfg a) (now_seconds w) = Some t"
    using hit_or_refresh by blast
  from getFo_hit [OF this] False show ?thesis
    by (simp add: exchange_calls_def)
qed

text \<open>
  C3. When a call of \<open>getFoAccessTokenFromObo\<close> has returned a token and a second call for
  the same assertion happens while the entry for its fingerprint satisfies
  \<open>expiresAt - 60 > now\<close>, the second call returns the identical token from the cache,
  changes nothing and performs no network call; so if the first call had to exchange,
  exactly one token-exchange call is performed by the two calls together.
\<close>

theorem getOrExchange_cache_hit_idempotent:
  assumes first: "getFoAccessTokenFromObo w cfg st a = (Inr tok, st1, log1)"
      and window: "within_window st1 (cacheKey w cfg a) now2"
  shows "getFoAccessTokenFromObo (w\<lparr>now_seconds := now2, idp_fetch := idp2\<rparr>) cfg st1 a
           = (Inr tok, st1, [])
         \<and> (needs_refresh st (cacheKey w cfg a) (now_seconds w) \<longrightarrow>
              length (exchange_calls
                (log1 @ snd (snd (getFoAccessTokenFromObo
                    (w\<lparr>now_seconds := now2, idp_fetch := idp2\<rparr>) cfg st1 a)))) = 1)"
proof -
  let ?w2 = "w\<lparr>now_seconds := now2, idp_fetch := idp2\<rparr>"
  have key: "cacheKey ?w2 cfg a = cacheKey w cfg a" by (simp add: cacheKey_def)
  from window_cache_hit [OF window] obtain c where
    c: "oboCache st1 (cacheKey w cfg a) = Some c"
       "cache_hit st1 (cacheKey w cfg a) now2 = Some (accessToken c)" by blast
  from getFo_success_entry [OF first c(1)] have "accessToken c = tok" .
  with c(2) have "cache_hit st1 (cacheKey ?w2 cfg a) (now_seconds ?w2) = Some tok"
    by (simp add: key)
  from getFo_hit [OF this] have second: "getFoAccessTokenFromObo ?w2 cfg st1 a = (Inr tok, st1, [])" .
  have "log1 = snd (snd (getFoAccessTokenFromObo w cfg st a))" using first by simp
  with getFo_log_length [of w cfg st a]
  have "needs_refresh st (cacheKey w cfg a) (now_seconds w) \<longrightarrow> length (exchange_calls log1) = 1"
    by simp
  with second show ?thesis by simp
qed

theorem getOrExchange_cache_hit_idempotent_witness:
  "getFoAccessTokenFromObo (example_world 1000 example_fo_200) example_config new_connector ''token-A''
     = (Inr ''fo-token-for-token-A'',
        fst (snd (getFoAccessTokenFromObo (example_world 1000 example_fo_200) example_config
                    new_connector ''token-A'')),
        [TokenExchange (token_request example_config ''token-A'')])
   \<and> within_window
        (fst (snd (getFoAccessTokenFromObo (example_world 1000 example_fo_200) example_config
                    new_connector ''token-A'')))
        (cacheKey (example_world 1000 example_fo_200) example_config ''token-A'') 4539
   \<and> needs_refresh new_connector
        (cacheKey (example_world 1000 example_fo_200) example_config ''token-A'') 1000
   \<and> getFoAccessTokenFromObo
        ((example_world 1000 example_fo_200)\<lparr>now_seconds := 4539, idp_fetch := example_idp_401\<rparr>)
        example_config
        (fst (snd (getFoAccessTokenFromObo (example_world 1000 example_fo_200) example_config
                    new_connector ''token-A'')))
        ''token-A''
     = (Inr ''fo-token-for-token-A'',
        fst (snd (getFoAccessTokenFromObo (example_world 1000 example_fo_200) example_config
                    new_connector ''token-A'')),
        [])
   \<and> length (exchange_calls
        ([TokenExchange (token_request example_config ''token-A'')] @
         snd (snd (getFoAccessTokenFromObo
           ((example_world 1000 example_fo_200)\<lparr>now_seconds := 4539, idp_fetch := example_idp_401\<rparr>)
           example_config
           (fst (snd (getFoAccessTokenFromObo (example_world 1000 example_fo_200) example_config
                       new_connector ''token-A'')))
           ''token-A'')))) = 1"
proof -
  let ?w = "example_world 1000 example_fo_200"
  let ?st1 = "fst (snd (getFoAccessTokenFromObo ?w example_config new_connector ''token-A''))"
  have first: "getFoAccessTokenFromObo ?w example_config new_connector ''token-A''
      = (Inr ''fo-token-for-token-A'', ?st1, [TokenExchange (token_request example_config ''token-A'')])"
    by (simp add: getFoAccessTokenFromObo_def Let_def cache_hit_def new_connector_def
          example_world_def example_idp_def resp_ok_def or_default_def assertion_of_def
          token_request_def)
  have window: "within_window ?st1 (cacheKey ?w example_config ''token-A'') 4539"
    by (simp add: getFoAccessTokenFromObo_def Let_def cache_hit_def new_connector_def
          example_world_def example_idp_def resp_ok_def or_default_def within_window_def)
  have refresh: "needs_refresh new_connector (cacheKey ?w example_config ''token-A'') (now_seconds ?w)"
    by (simp add: needs_refresh_def new_connector_def)
  have now: "now_seconds ?w = 1000" by (simp add: example_world_def)
  from getOrExchange_cache_hit_idempotent [OF first window, of example_idp_401] first window
    refresh now
  show ?thesis by metis
qed

text \<open>
  C4, as amended. When there is no entry for the fingerprint, or the entry satisfies
  \<open>expiresAt - 60 \<le> now\<close>, the call performs exactly one exchange call; when that call
  succeeds (a success status and a body that decodes), the call returns the new token and
  stores it under the fingerprint, overwriting any entry there, with
  \<open>expiresAt = now + expires_in\<close>, or \<open>now + 3600\<close> when \<open>expires_in\<close> is absent or 0.
\<close>

theorem getOrExchange_refresh:
  assumes stale: "needs_refresh st (cacheKey w cfg a) (now_seconds w)"
  shows "exchange_calls (snd (snd (getFoAccessTokenFromObo w cfg st a))) = [token_request cfg a]
         \<and> (\<forall>r j. idp_fetch w (token_request cfg a) = Resolves r \<and> resp_ok r \<and> resp_json r = Inr j
               \<longrightarrow> getFoAccessTokenFromObo w cfg st a =
                     (Inr (access_token j),
                      st\<lparr>oboCache := (oboCache st)
                           (cacheKey w cfg a \<mapsto>
                              \<lparr>accessToken = access_token j,
                               expiresAt = now_seconds w +
                                 (case expires_in j of
                                    None \<Rightarrow> 3600
                                  | Some e \<Rightarrow> if e = 0 then 3600 else e)\<rparr>)\<rparr>,
                      [TokenExchange (token_request cfg a)]))"
proof (intro conjI allI impI)
  show "exchange_calls (snd (snd (getFoAccessTokenFromObo w cfg st a))) = [token_request cfg a]"
    by (simp add: getFo_miss [OF stale] exchange_calls_def split: fetch_result.splits sum.splits)
next
  fix r j
  assume "idp_fetch w (token_request cfg a) = Resolves r \<and> resp_ok r \<and> resp_json r = Inr j"
  then show "getFoAccessTokenFromObo w cfg st a =
     (Inr (access_token j),
      st\<lparr>oboCache := (oboCache st)
           (cacheKey w cfg a \<mapsto>
              \<lparr>accessToken = access_token j,
               expiresAt = now_seconds w +
                 (case expires_in j of None \<Rightarrow> 3600 | Some e \<Rightarrow> if e = 0 then 3600 else e)\<rparr>)\<rparr>,
      [TokenExchange (token_request cfg a)])"
    by (simp add: getFo_miss [OF stale] or_default_def)
qed

theorem getOrExchange_refresh_witness:
  "needs_refresh
     (new_connector\<lparr>oboCache :=
        [cacheKey (example_world 1000 example_fo_200) example_config ''token-A''
           \<mapsto> \<lparr>accessToken = ''old-token'', expiresAt = 1060\<rparr>]\<rparr>)
     (cacheKey (example_world 1000 example_fo_200) example_config ''token-A'') 1000
   \<and> getFoAccessTokenFromObo (example_world 1000 example_fo_200) example_config
       (new_connector\<lparr>oboCache :=
          [cacheKey (example_world 1000 example_fo_200) example_config ''token-A''
             \<mapsto> \<lparr>accessToken = ''old-token'', expiresAt = 1060\<rparr>]\<rparr>)
       ''token-A''
     = (Inr ''fo-token-for-token-A'',
        new_connector\<lparr>oboCache :=
          [cacheKey (example_world 1000 example_fo_200) example_config ''token-A''
             \<mapsto> \<lparr>accessToken = ''fo-token-for-token-A'', expiresAt = 4600\<rparr>]\<rparr>,
        [TokenExchange (token_request example_config ''token-A'')])"
proof -
  let ?w = "example_world 1000 example_fo_200"
  let ?k = "cacheKey ?w example_config ''token-A''"
  let ?st = "new_connector\<lparr>oboCache := [?k \<mapsto> \<lparr>accessToken = ''old-token'', expiresAt = 1060\<rparr>]\<rparr>"
  let ?r = "\<lparr>resp_status = 200, resp_text = [],
             resp_json = Inr \<lparr>access_token = ''fo-token-for-token-A'', expires_in = Some 3600\<rparr>\<rparr>"
  have now: "now_seconds ?w = 1000" by (simp add: example_world_def)
  have stale: "needs_refresh ?st ?k (now_seconds ?w)"
    by (simp add: needs_refresh_def now)
  have resp: "idp_fetch ?w (token_request example_config ''token-A'') = Resolves ?r
              \<and> resp_ok ?r
              \<and> resp_json ?r = Inr \<lparr>access_token = ''fo-token-for-token-A'', expires_in = Some 3600\<rparr>"
    by (simp add: example_world_def example_idp_def assertion_of_def token_request_def resp_ok_def)
  from getOrExchange_refresh [OF stale] resp
  have "getFoAccessTokenFromObo ?w example_config ?st ''token-A'' =
     (Inr (access_token \<lparr>access_token = ''fo-token-for-token-A'', expires_in = Some 3600\<rparr>),
      ?st\<lparr>oboCache := (oboCache ?st)
           (?k \<mapsto>
              \<lparr>accessToken = access_token \<lparr>access_token = ''fo-token-for-token-A'', expires_in = Some 3600\<rparr>,
               expiresAt = now_seconds ?w +
                 (case expires_in \<lparr>access_token = ''fo-token-for-token-A'', expires_in = Some (3600::int)\<rparr> of
                    None \<Rightarrow> 3600 | Some e \<Rightarrow> if e = 0 then 3600 else e)\<rparr>)\<rparr>,
      [TokenExchange (token_request example_config ''token-A'')])"
    by blast
  then show ?thesis using stale now by (simp add: new_connector_def)
qed

text \<open>
  C4 as stated fails when the token endpoint answers \<open>expires_in = 0\<close>: the entry stored
  at time 1000 expires at 4600, not at \<open>1000 + 0\<close>.
\<close>

theorem getOrExchange_refresh_expires_in_zero:
  "needs_refresh new_connector
     (cacheKey ((example_world 1000 example_fo_200)\<lparr>idp_fetch := example_idp_zero\<rparr>)
        example_config ''token-A'') 1000
   \<and> idp_fetch ((example_world 1000 example_fo_200)\<lparr>idp_fetch := example_idp_zero\<rparr>)
        (token_request example_config ''token-A'')
      = Resolves \<lparr>resp_status = 200, resp_text = [],
                  resp_json = Inr \<lparr>access_token = ''fo-token-for-token-A'', expires_in = Some 0\<rparr>\<rparr>
   \<and> map_option expiresAt
        (oboCache
           (fst (snd (getFoAccessTokenFromObo
              ((example_world 1000 example_fo_200)\<lparr>idp_fetch := example_idp_zero\<rparr>)
              example_config new_connector ''token-A'')))
           (cacheKey ((example_world 1000 example_fo_200)\<lparr>idp_fetch := example_idp_zero\<rparr>)
              example_config ''token-A''))
      = Some 4600
   \<and> (4600 :: int) \<noteq> 1000 + 0"
  by (simp add: needs_refresh_def new_connector_def getFoAccessTokenFromObo_def Let_def
        cache_hit_def example_world_def example_idp_zero_def resp_ok_def or_default_def
        assertion_of_def token_request_def)

text \<open>
  C10. When there is no usable entry and the token endpoint answers with a non-success
  status, \<open>getFoAccessTokenFromObo\<close> fails with the exchange error and the connector,
  its cache included, is exactly as before. Whatever the endpoint's non-success answer,
  the cache is unchanged; and the cache changes only when a success answer was received
  and decoded.
\<close>

theorem exchange_failure_leaves_cache_unchanged:
  "(\<forall>r. needs_refresh st (cacheKey w cfg a) (now_seconds w)
          \<and> idp_fetch w (token_request cfg a) = Resolves r \<and> \<not> resp_ok r
        \<longrightarrow> getFoAccessTokenFromObo w cfg st a =
              (Inl (ExchangeError (resp_status r) (resp_text r)), st,
               [TokenExchange (token_request cfg a)]))
   \<and> (\<forall>r. idp_fetch w (token_request cfg a) = Resolves r \<and> \<not> resp_ok r
        \<longrightarrow> oboCache (fst (snd (getFoAccessTokenFromObo w cfg st a))) = oboCache st)
   \<and> (oboCache (fst (snd (getFoAccessTokenFromObo w cfg st a))) \<noteq> oboCache st
        \<longrightarrow> (\<exists>r j. idp_fetch w (token_request cfg a) = Resolves r \<and> resp_ok r
                    \<and> resp_json r = Inr j
                    \<and> fst (getFoAccessTokenFromObo w cfg st a) = Inr (access_token j)))"
proof (intro conjI allI impI)
  fix r
  assume "needs_refresh st (cacheKey w cfg a) (now_seconds w)
          \<and> idp_fetch w (token_request cfg a) = Resolves r \<and> \<not> resp_ok r"
  then show "getFoAccessTokenFromObo w cfg st a =
              (Inl (ExchangeError (resp_status r) (resp_text r)), st,
               [TokenExchange (token_request cfg a)])"
    by (simp add: getFo_miss)
next
  fix r
  assume h: "idp_fetch w (token_request cfg a) = Resolves r \<and> \<not> resp_ok r"
  from hit_or_refresh [of st "cacheKey w cfg a" "now_seconds w"]
  show "oboCache (fst (snd (getFoAccessTokenFromObo w cfg st a))) = oboCache st"
  proof
    assume "\<exists>t. cache_hit st (cacheKey w cfg a) (now_seconds w) = Some t"
    then obtain t where "cache_hit st (cacheKey w cfg a) (now_seconds w) = Some t" ..
    from getFo_hit [OF this] show ?thesis by simp
  next
    assume "needs_refresh st (cacheKey w cfg a) (now_seconds w)"
    from getFo_miss [OF this] h show ?thesis by simp
  qed
next
  assume changed: "oboCache (fst (snd (getFoAccessTokenFromObo w cfg st a))) \<noteq> oboCache st"
  from hit_or_refresh [of st "cacheKey w cfg a" "now_seconds w"]
  show "\<exists>r j. idp_fetch w (token_request cfg a) = Resolves r \<and> resp_ok r
                    \<and> resp_json r = Inr j
                    \<and> fst (getFoAccessTokenFromObo w cfg st a) = Inr (access_token j)"
  proof
    assume "\<exists>t. cache_hit st (cacheKey w cfg a) (now_seconds w) = Some t"
    then obtain t where "cache_hit st (cacheKey w cfg a) (now_seconds w) = Some t" ..
    from getFo_hit [OF this] changed show ?thesis by simp
  next
    assume "needs_refresh st (cacheKey w cfg a) (now_seconds w)"
    from getFo_miss [OF this] changed show ?thesis
      by (auto split: fetch_result.splits sum.splits if_splits)
  qed
qed

theorem exchange_failure_leaves_cache_unchanged_witness:
  "getFoAccessTokenFromObo ((example_world 1000 example_fo_200)\<lparr>idp_fetch := example_idp_401\<rparr>)
       example_config new_connector ''token-A''
     = (Inl (ExchangeError 401 ''invalid_grant''), new_connector,
        [TokenExchange (token_request example_config ''token-A'')])
   \<and> oboCache (fst (snd (getFoAccessTokenFromObo
         ((example_world 1000 example_fo_200)\<lparr>idp_fetch := example_idp_401\<rparr>)
         example_config new_connector ''token-A''))) = oboCache new_connector
   \<and> oboCache (fst (snd (getFoAccessTokenFromObo (example_world 1000 example_fo_200)
         example_config new_connector ''token-A''))) \<noteq> oboCache new_connector
   \<and> (\<exists>r j. idp_fetch (example_world 1000 example_fo_200)
                (token_request example_config ''token-A'') = Resolves r
            \<and> resp_ok r \<and> resp_json r = Inr j
            \<and> fst (getFoAccessTokenFromObo (example_world 1000 example_fo_200)
                     example_config new_connector ''token-A'') = Inr (access_token j))"
proof -
  let ?w401 = "(example_world 1000 example_fo_200)\<lparr>idp_fetch := example_idp_401\<rparr>"
  let ?w = "example_world 1000 example_fo_200"
  let ?r = "\<lparr>resp_status = 401, resp_text = ''invalid_grant'',
             resp_json = (Inl ''not JSON'' :: string + token_json)\<rparr>"
  have stale: "needs_refresh new_connector (cacheKey ?w401 example_config ''token-A'') (now_seconds ?w401)"
    by (simp add: needs_refresh_def new_connector_def)
  have resp: "idp_fetch ?w401 (token_request example_config ''token-A'') = Resolves ?r \<and> \<not> resp_ok ?r"
    by (simp add: example_world_def example_idp_401_def resp_ok_def)
  have changed: "oboCache (fst (snd (getFoAccessTokenFromObo ?w example_config new_connector ''token-A'')))
                   \<noteq> oboCache new_connector"
  proof
    assume "oboCache (fst (snd (getFoAccessTokenFromObo ?w example_config new_connector ''token-A'')))
              = oboCache new_connector"
    then have "oboCache (fst (snd (getFoAccessTokenFromObo ?w example_config new_connector ''token-A'')))
                 (cacheKey ?w example_config ''token-A'') = None"
      by (simp add: new_connector_def)
    then show False
      by (simp add: getFoAccessTokenFromObo_def Let_def cache_hit_def new_connector_def
            example_world_def example_idp_def resp_ok_def)
  qed
  note t1 = exchange_failure_leaves_cache_unchanged [of new_connector ?w401 example_config "''token-A''"]
  note t2 = exchange_failure_leaves_cache_unchanged [of new_connector ?w example_config "''token-A''"]
  have a: "getFoAccessTokenFromObo ?w401 example_config new_connector ''token-A''
             = (Inl (ExchangeError (resp_status ?r) (resp_text ?r)), new_connector,
                [TokenExchange (token_request example_config ''token-A'')])"
    using t1 stale resp by blast
  have b: "oboCache (fst (snd (getFoAccessTokenFromObo ?w401 example_config new_connector ''token-A'')))
             = oboCache new_connector"
    using t1 resp by blast
  have c: "\<exists>r j. idp_fetch ?w (token_request example_config ''token-A'') = Resolves r
            \<and> resp_ok r \<and> resp_json r = Inr j
            \<and> fst (getFoAccessTokenFromObo ?w example_config new_connector ''token-A'')
                = Inr (access_token j)"
    using t2 changed by blast
  from a b c changed show ?thesis by simp
qed

text \<open>
  C8. The cache key is the digest of \<open>assertion + "|" + FO_URL\<close> and depends on nothing
  else (not on the clock, the cache or the network): equal assertions give equal keys.
  Two different assertions that get the same key exhibit a collision of the digest. A
  call stores under no key but this digest: every key of the cache after the call was a
  key before or is the digest.
\<close>

theorem cacheKey_fingerprint:
  "cacheKey w cfg a = sha256_hex w (a @ ''|'' @ FO_URL cfg)
   \<and> (sha256_hex w' = sha256_hex w \<and> FO_URL cfg' = FO_URL cfg \<longrightarrow> cacheKey w' cfg' a = cacheKey w cfg a)
   \<and> (a1 \<noteq> a2 \<and> cacheKey w cfg a1 = cacheKey w cfg a2
        \<longrightarrow> digest_collision (sha256_hex w) (a1 @ ''|'' @ FO_URL cfg) (a2 @ ''|'' @ FO_URL cfg))
   \<and> (\<forall>k. k \<in> dom (oboCache (fst (snd (getFoAccessTokenFromObo w cfg st a))))
        \<longrightarrow> k \<in> dom (oboCache st) \<or> k = sha256_hex w (a @ ''|'' @ FO_URL cfg))"
proof (intro conjI allI impI)
  show "cacheKey w cfg a = sha256_hex w (a @ ''|'' @ FO_URL cfg)"
    by (simp add: cacheKey_def)
next
  assume "sha256_hex w' = sha256_hex w \<and> FO_URL cfg' = FO_URL cfg"
  then show "cacheKey w' cfg' a = cacheKey w cfg a" by (simp add: cacheKey_def)
next
  assume "a1 \<noteq> a2 \<and> cacheKey w cfg a1 = cacheKey w cfg a2"
  then show "digest_collision (sha256_hex w) (a1 @ ''|'' @ FO_URL cfg) (a2 @ ''|'' @ FO_URL cfg)"
    by (simp add: digest_collision_def cacheKey_def)
next
  fix k
  assume k: "k \<in> dom (oboCache (fst (snd (getFoAccessTokenFromObo w cfg st a))))"
  from hit_or_refresh [of st "cacheKey w cfg a" "now_seconds w"]
  show "k \<in> dom (oboCache st) \<or> k = sha256_hex w (a @ ''|'' @ FO_URL cfg)"
  proof
    assume "\<exists>t. cache_hit st (cacheKey w cfg a) (now_seconds w) = Some t"
    then obtain t where "cache_hit st (cacheKey w cfg a) (now_seconds w) = Some t" ..
    from getFo_hit [OF this] k show ?thesis by simp
  next
    assume "needs_refresh st (cacheKey w cfg a) (now_seconds w)"
    from getFo_miss [OF this] k show ?thesis
      by (auto simp: cacheKey_def split: fetch_result.splits sum.splits if_splits)
  qed
qed

theorem cacheKey_fingerprint_witness:
  "''ab'' \<noteq> ''ba''
   \<and> cacheKey (example_world 1000 example_fo_200) example_config ''ab''
       = cacheKey (example_world 1000 example_fo_200) example_config ''ba''
   \<and> digest_collision example_digest (''ab'' @ ''|'' @ FO_URL example_config)
       (''ba'' @ ''|'' @ FO_URL example_config)
   \<and> cacheKey ((example_world 5000 example_fo_400)) (example_config\<lparr>TENANT_ID := ''other''\<rparr>) ''ab''
       = cacheKey (example_world 1000 example_fo_200) example_config ''ab''
   \<and> example_digest (''token-A'' @ ''|'' @ FO_URL example_config)
       \<in> dom (oboCache (fst (snd (getFoAccessTokenFromObo (example_world 1000 example_fo_200)
                 example_config new_connector ''token-A''))))"
proof -
  let ?w = "example_world 1000 example_fo_200"
  let ?w' = "example_world 5000 example_fo_400"
  let ?cfg' = "example_config\<lparr>TENANT_ID := ''other''\<rparr>"
  have d: "sha256_hex ?w = example_digest" "sha256_hex ?w' = example_digest"
    by (simp_all add: example_world_def)
  have same: "cacheKey ?w example_config ''ab'' = cacheKey ?w example_config ''ba''"
    by (simp add: cacheKey_def d example_digest_def)
  have ne: "''ab'' \<noteq> ''ba''" by simp
  have indep: "sha256_hex ?w' = sha256_hex ?w \<and> FO_URL ?cfg' = FO_URL example_config"
    by (simp add: d)
  have stored: "cacheKey ?w example_config ''token-A''
      \<in> dom (oboCache (fst (snd (getFoAccessTokenFromObo ?w example_config new_connector ''token-A''))))"
    by (simp add: getFoAccessTokenFromObo_def Let_def cache_hit_def new_connector_def
          example_world_def example_idp_def resp_ok_def)
  note t = cacheKey_fingerprint [of ?w example_config _ ?w' ?cfg' "''ab''" "''ba''" new_connector]
  have c1: "digest_collision (sha256_hex ?w) (''ab'' @ ''|'' @ FO_URL example_config)
              (''ba'' @ ''|'' @ FO_URL example_config)"
    using t ne same by blast
  have c2: "cacheKey ?w' ?cfg' ''ab'' = cacheKey ?w example_config ''ab''"
    using cacheKey_fingerprint [of ?w example_config "''ab''" ?w' ?cfg'] indep by blast
  have c3: "cacheKey ?w example_config ''token-A'' \<in> dom (oboCache new_connector)
            \<or> cacheKey ?w example_config ''token-A''
                = sha256_hex ?w (''token-A'' @ ''|'' @ FO_URL example_config)"
    using cacheKey_fingerprint [of ?w example_config "''token-A''" _ _ _ _ new_connector] stored
    by blast
  have "cacheKey ?w example_config ''token-A'' = example_digest (''token-A'' @ ''|'' @ FO_URL example_config)"
    using c3 by (simp add: new_connector_def d)
  with stored c1 c2 same ne show ?thesis by (simp add: d)
qed

section \<open>Properties of the CRUD proxy\<close>

lemma fetchFo_no_assertion:
  "getCurrentContext st = [] \<Longrightarrow> fetchFo w cfg st pathname init = (Inl MissingAssertion, st, [])"
  by (simp add: fetchFo_def)

text \<open>
  C7. When the current assertion is empty, each of \<open>createRecord\<close>, \<open>readRecord\<close>,
  \<open>updateRecord\<close> and \<open>deleteRecord\<close> fails with \<open>MissingAssertion\<close>, leaves the connector
  as it was and has done nothing to the outside: no token exchange and no downstream call.
\<close>

theorem crud_requires_assertion:
  assumes "getCurrentContext st = []"
  shows "createRecord w cfg st entityName data = (Inl MissingAssertion, st, [])
         \<and> readRecord w cfg st entityName query = (Inl MissingAssertion, st, [])
         \<and> updateRecord w cfg st entityName key data = (Inl MissingAssertion, st, [])
         \<and> deleteRecord w cfg st entityName key = (Inl MissingAssertion, st, [])
         \<and> network_calls (snd (snd (createRecord w cfg st entityName data))) = []
         \<and> network_calls (snd (snd (readRecord w cfg st entityName query))) = []
         \<and> network_calls (snd (snd (updateRecord w cfg st entityName key data))) = []
         \<and> network_calls (snd (snd (deleteRecord w cfg st entityName key))) = []"
  using assms
  by (simp add: createRecord_def readRecord_def updateRecord_def deleteRecord_def
        write_outcome_def fetchFo_no_assertion network_calls_def)

theorem crud_requires_assertion_witness:
  "getCurrentContext new_connector = []
   \<and> createRecord (example_world 1000 example_fo_200) example_config new_connector
        ''EmployeesV2'' (Some ''{}'') = (Inl MissingAssertion, new_connector, [])
   \<and> readRecord (example_world 1000 example_fo_200) example_config new_connector
        ''EmployeesV2'' None = (Inl MissingAssertion, new_connector, [])
   \<and> updateRecord (example_world 1000 example_fo_200) example_config new_connector
        ''EmployeesV2'' ''PersonnelNumber=123'' (Some ''{}'') = (Inl MissingAssertion, new_connector, [])
   \<and> deleteRecord (example_world 1000 example_fo_200) example_config new_connector
        ''EmployeesV2'' ''PersonnelNumber=123'' = (Inl MissingAssertion, new_connector, [])"
proof -
  have h: "getCurrentContext new_connector = []"
    by (simp add: getCurrentContext_def new_connector_def)
  from crud_requires_assertion [OF h, of "example_world 1000 example_fo_200" example_config
         "''EmployeesV2''" "Some ''{}''" None "''PersonnelNumber=123''"] h
  show ?thesis by blast
qed







section \<open>Properties of the auth middleware\<close>

lemma bearer_match_sound:
  assumes "bearer_match a = Some t"
  shows "\<exists>scheme ws. a = scheme @ ws @ t \<and> lower_str scheme = ''bearer''
           \<and> ws \<noteq> [] \<and> list_all is_space ws
           \<and> t \<noteq> [] \<and> list_all (\<lambda>c. \<not> is_line_terminator c) t"
proof -
  let ?rest = "drop 6 a"
  let ?ws = "takeWhile is_space ?rest"
  let ?tail = "dropWhile is_space ?rest"
  from assms have scheme: "lower_str (take 6 a) = ''bearer''"
    by (simp add: bearer_match_def split: if_splits)
  from assms have ws: "?ws \<noteq> []"
    by (auto simp: bearer_match_def Let_def split: if_splits)
  have a: "a = take 6 a @ ?ws @ ?tail" by simp
  have sp: "list_all is_space ?ws"
    by (auto simp: list_all_iff dest: set_takeWhileD)
  show ?thesis
  proof (cases "?tail = []")
    case False
    with assms ws scheme have "t = ?tail" "list_all (\<lambda>c. \<not> is_line_terminator c) ?tail"
      by (auto simp: bearer_match_def Let_def split: if_splits)
    with a scheme ws sp False show ?thesis by blast
  next
    case True
    with assms ws scheme have t: "t = [last ?ws]" "2 \<le> length ?ws" "\<not> is_line_terminator (last ?ws)"
      by (auto simp: bearer_match_def Let_def split: if_splits)
    have split: "?ws = butlast ?ws @ [last ?ws]" using ws by simp
    have ne: "butlast ?ws \<noteq> []"
    proof
      assume "butlast ?ws = []"
      then have "length (butlast ?ws) = 0" by simp
      with t(2) show False by simp
    qed
    have sp': "list_all is_space (butlast ?ws)"
      using sp by (auto simp: list_all_iff dest: in_set_butlastD)
    have "a = take 6 a @ butlast ?ws @ t"
      using a True split t(1) by (metis append.assoc append_Nil2)
    with scheme ne sp' t show ?thesis by auto
  qed
qed

lemma bearer_match_complete:
  assumes a: "a = scheme @ ws @ t" and scheme: "lower_str scheme = ''bearer''"
      and ws: "ws \<noteq> []" "list_all is_space ws"
      and t: "t \<noteq> []" "list_all (\<lambda>c. \<not> is_line_terminator c) t"
  shows "bearer_match a \<noteq> None"
proof -
  have len: "length scheme = 6"
    using arg_cong [OF scheme, of length] by (simp add: lower_str_def)
  have tk: "take 6 a = scheme" and dr: "drop 6 a = ws @ t"
    using a len by simp_all
  have all: "\<And>x. x \<in> set ws \<Longrightarrow> is_space x" using ws(2) by (simp add: list_all_iff)
  have tw: "takeWhile is_space (ws @ t) = ws @ takeWhile is_space t"
    using all by (simp add: takeWhile_append2)
  have dw: "dropWhile is_space (ws @ t) = dropWhile is_space t"
    using all by (simp add: dropWhile_append2)
  show ?thesis
  proof (cases "dropWhile is_space t = []")
    case False
    have "set (dropWhile is_space t) \<subseteq> set t" by (rule set_dropWhileD [THEN subsetI])
    with t(2) have "list_all (\<lambda>c. \<not> is_line_terminator c) (dropWhile is_space t)"
      by (auto simp: list_all_iff)
    with False ws show ?thesis
      by (simp add: bearer_match_def tk dr tw dw scheme Let_def)
  next
    case True
    then have full: "takeWhile is_space t = t"
      by (simp add: dropWhile_eq_Nil_conv)
    have "length (ws @ t) \<ge> 2"
    proof -
      have "length ws \<ge> 1" "length t \<ge> 1" using ws(1) t(1) by (simp_all add: Suc_leI)
      then show ?thesis by simp
    qed
    moreover have "\<not> is_line_terminator (last (ws @ t))"
      using t by (simp add: list_all_iff)
    ultimately show ?thesis using True ws
      by (simp add: bearer_match_def tk dr tw dw scheme Let_def full)
  qed
qed

lemma bearer_match_iff: "bearer_match a \<noteq> None \<longleftrightarrow> bearer_header_spec a"
proof
  assume "bearer_match a \<noteq> None"
  then obtain t where "bearer_match a = Some t" by blast
  from bearer_match_sound [OF this] show "bearer_header_spec a"
    unfolding bearer_header_spec_def by blast
next
  assume "bearer_header_spec a"
  then show "bearer_match a \<noteq> None"
    unfolding bearer_header_spec_def using bearer_match_complete by blast
qed

lemma authMiddleware_sent:
  "sent (authMiddleware verify cfg next auth) = Some (status, body)
     \<Longrightarrow> status = 200 \<and> \<not> isSuccess body"
  by (auto simp: authMiddleware_def reject_with_def Let_def
           split: header_value.splits option.splits sum.splits if_splits)

lemma authMiddleware_next:
  "next_called_in (authMiddleware verify cfg next auth) \<noteq> None \<longleftrightarrow>
     (\<exists>a tok p. auth = One a \<and> bearer_match a = Some tok
        \<and> validateInboundJwt verify cfg tok = Inr p)"
proof (cases auth)
  case (One a)
  show ?thesis
  proof (cases "bearer_match a")
    case None
    with One show ?thesis by (simp add: authMiddleware_def reject_with_def)
  next
    case (Some tok)
    from bearer_match_sound [OF Some] have ne: "tok \<noteq> []" "a \<noteq> []" by auto
    show ?thesis
    proof (cases "validateInboundJwt verify cfg tok")
      case (Inl e)
      with One Some ne show ?thesis by (simp add: authMiddleware_def reject_with_def)
    next
      case (Inr p)
      with One Some ne show ?thesis
        by (simp add: authMiddleware_def Let_def split: option.splits)
    qed
  qed
qed (simp_all add: authMiddleware_def reject_with_def)

lemma authMiddleware_silent_only_if_next:
  "sent (authMiddleware verify cfg next auth) = None
     \<Longrightarrow> next_called_in (authMiddleware verify cfg next auth) \<noteq> None"
  by (auto simp: authMiddleware_def reject_with_def Let_def
           split: header_value.splits option.splits sum.splits if_splits)

text \<open>
  C6. On every rejection path of the middleware (the header is absent, is array-valued,
  does not have the shape \<open>Bearer <token>\<close> with a non-empty token, or the validator
  fails on the token) the response is \<open>{isSuccess: false, message}\<close> under status 200 and
  the next handler is not called. Every response the middleware sends has status 200, a
  success-class status and never 401, with \<open>isSuccess\<close> false. The next handler is called
  if and only if the header yields a token and the validator succeeds on it.
\<close>

theorem authMiddleware_rejects_uniformly:
  "((auth = Absent \<or> (\<exists>hs. auth = Many hs) \<or> (\<exists>a. auth = One a \<and> \<not> bearer_header_spec a)
      \<or> (\<exists>a tok e. auth = One a \<and> bearer_match a = Some tok
            \<and> validateInboundJwt verify cfg tok = Inl e))
     \<longrightarrow> (\<exists>msg. sent (authMiddleware verify cfg next auth)
                   = Some (200, \<lparr>isSuccess = False, message = msg\<rparr>))
         \<and> next_called_in (authMiddleware verify cfg next auth) = None)
   \<and> (\<forall>status body. sent (authMiddleware verify cfg next auth) = Some (status, body)
         \<longrightarrow> status = 200 \<and> 200 \<le> status \<and> status \<le> 299 \<and> status \<noteq> 401 \<and> \<not> isSuccess body)
   \<and> (next_called_in (authMiddleware verify cfg next auth) \<noteq> None \<longleftrightarrow>
         (\<exists>a tok p. auth = One a \<and> bearer_match a = Some tok
            \<and> validateInboundJwt verify cfg tok = Inr p))"
proof (intro conjI allI impI)
  assume rej: "auth = Absent \<or> (\<exists>hs. auth = Many hs) \<or> (\<exists>a. auth = One a \<and> \<not> bearer_header_spec a)
      \<or> (\<exists>a tok e. auth = One a \<and> bearer_match a = Some tok
            \<and> validateInboundJwt verify cfg tok = Inl e)"
  then have no_next: "next_called_in (authMiddleware verify cfg next auth) = None"
    using authMiddleware_next [of verify cfg "next" auth] bearer_match_iff by fastforce
  then have "sent (authMiddleware verify cfg next auth) \<noteq> None"
    using authMiddleware_silent_only_if_next by blast
  then obtain status body where sb: "sent (authMiddleware verify cfg next auth) = Some (status, body)"
    by auto
  from authMiddleware_sent [OF sb] have "status = 200" "\<not> isSuccess body" by simp_all
  then have "body = \<lparr>isSuccess = False, message = message body\<rparr>" by simp
  with sb \<open>status = 200\<close>
  have "sent (authMiddleware verify cfg next auth)
          = Some (200, \<lparr>isSuccess = False, message = message body\<rparr>)" by simp
  then show "\<exists>msg. sent (authMiddleware verify cfg next auth)
                   = Some (200, \<lparr>isSuccess = False, message = msg\<rparr>)" ..
  from no_next show "next_called_in (authMiddleware verify cfg next auth) = None" .
next
  fix status body
  assume sb: "sent (authMiddleware verify cfg next auth) = Some (status, body)"
  from authMiddleware_sent [OF sb]
  show "status = 200" "200 \<le> status" "status \<le> 299" "status \<noteq> 401" "\<not> isSuccess body"
    by simp_all
next
  show "next_called_in (authMiddleware verify cfg next auth) \<noteq> None \<longleftrightarrow>
         (\<exists>a tok p. auth = One a \<and> bearer_match a = Some tok
            \<and> validateInboundJwt verify cfg tok = Inr p)"
    by (rule authMiddleware_next)
qed

lemma example_headers_no_match:
  "bearer_match [] = None" "bearer_match ''Basic xyz'' = None" "bearer_match ''Bearer'' = None"
  by code_simp+

lemma example_headers_match:
  "bearer_match ''Bearer forged'' = Some ''forged''"
  "bearer_match ''bearer good-v2'' = Some ''good-v2''"
  by code_simp+

theorem authMiddleware_rejects_uniformly_witness:
  "(\<exists>msg. sent (authMiddleware example_verifier example_config next_returns Absent)
            = Some (200, \<lparr>isSuccess = False, message = msg\<rparr>))
   \<and> (\<exists>msg. sent (authMiddleware example_verifier example_config next_returns
                    (Many [''Bearer good-v2'', ''Bearer good-v2'']))
            = Some (200, \<lparr>isSuccess = False, message = msg\<rparr>))
   \<and> (\<exists>msg. sent (authMiddleware example_verifier example_config next_returns (One []))
            = Some (200, \<lparr>isSuccess = False, message = msg\<rparr>))
   \<and> (\<exists>msg. sent (authMiddleware example_verifier example_config next_returns (One ''Basic xyz''))
            = Some (200, \<lparr>isSuccess = False, message = msg\<rparr>))
   \<and> (\<exists>msg. sent (authMiddleware example_verifier example_config next_returns (One ''Bearer''))
            = Some (200, \<lparr>isSuccess = False, message = msg\<rparr>))
   \<and> (\<exists>msg. sent (authMiddleware example_verifier example_config next_returns
                    (One ''Bearer forged''))
            = Some (200, \<lparr>isSuccess = False, message = msg\<rparr>))
   \<and> next_called_in (authMiddleware example_verifier example_config next_returns
                       (One ''Bearer forged'')) = None
   \<and> next_called_in (authMiddleware example_verifier example_config next_returns
                       (One ''bearer good-v2'')) \<noteq> None"
proof -
  note t = authMiddleware_rejects_uniformly [of _ example_verifier example_config next_returns]
  have n1: "\<not> bearer_header_spec []" "\<not> bearer_header_spec ''Basic xyz''"
           "\<not> bearer_header_spec ''Bearer''"
    using example_headers_no_match bearer_match_iff [of "[]"]
      bearer_match_iff [of "''Basic xyz''"] bearer_match_iff [of "''Bearer''"] by simp_all
  have forged: "validateInboundJwt example_verifier example_config ''forged''
                  = Inl (LibraryFailure ''signature verification failed'')"
    by (simp add: validateInboundJwt_def first_attempt_def example_verifier_def)
  have good: "validateInboundJwt example_verifier example_config ''good-v2''
                = Inr \<lparr>iss = Some (ISSUER_V2 example_config), claims = []\<rparr>"
    by (simp add: validateInboundJwt_def first_attempt_def example_verifier_def
          issuer_allowed_def String_iss_def)
  have a: "\<exists>msg. sent (authMiddleware example_verifier example_config next_returns Absent)
            = Some (200, \<lparr>isSuccess = False, message = msg\<rparr>)"
    using t [of Absent] by simp
  have b: "\<exists>msg. sent (authMiddleware example_verifier example_config next_returns
                    (Many [''Bearer good-v2'', ''Bearer good-v2'']))
            = Some (200, \<lparr>isSuccess = False, message = msg\<rparr>)"
    using t [of "Many [''Bearer good-v2'', ''Bearer good-v2'']"] by simp
  have c: "\<exists>msg. sent (authMiddleware example_verifier example_config next_returns (One []))
            = Some (200, \<lparr>isSuccess = False, message = msg\<rparr>)"
    using t [of "One []"] n1(1) by simp
  have d: "\<exists>msg. sent (authMiddleware example_verifier example_config next_returns (One ''Basic xyz''))
            = Some (200, \<lparr>isSuccess = False, message = msg\<rparr>)"
    using t [of "One ''Basic xyz''"] n1(2) by simp
  have e: "\<exists>msg. sent (authMiddleware example_verifier example_config next_returns (One ''Bearer''))
            = Some (200, \<lparr>isSuccess = False, message = msg\<rparr>)"
    using t [of "One ''Bearer''"] n1(3) by simp
  have f: "(\<exists>msg. sent (authMiddleware example_verifier example_config next_returns
                    (One ''Bearer forged''))
            = Some (200, \<lparr>isSuccess = False, message = msg\<rparr>))
        \<and> next_called_in (authMiddleware example_verifier example_config next_returns
                       (One ''Bearer forged'')) = None"
    using t [of "One ''Bearer forged''"] example_headers_match(1) forged by simp
  have g: "next_called_in (authMiddleware example_verifier example_config next_returns
                       (One ''bearer good-v2'')) \<noteq> None"
    using t [of "One ''bearer good-v2''"] example_headers_match(2) good by simp
  show ?thesis
    by (intro conjI) (rule a b c d e g conjunct1 [OF f] conjunct2 [OF f])+
qed

section \<open>The current assertion is one field shared by all requests\<close>

lemma getFo_userToken:
  "userToken (fst (snd (getFoAccessTokenFromObo w cfg st a))) = userToken st"
  by (simp add: getFoAccessTokenFromObo_def Let_def
        split: option.splits fetch_result.splits sum.splits)

lemma fetchFo_userToken:
  "userToken (fst (snd (fetchFo w cfg st pathname init))) = userToken st"
  using getFo_userToken [of w cfg st "getCurrentContext st"]
  by (auto simp: fetchFo_def Let_def split: prod.splits sum.splits fetch_result.splits)

lemma post_records_ignores_own_token:
  "header_token auth = Inr tokB \<Longrightarrow> header_token auth' = Inr tokB'
     \<Longrightarrow> post_records w cfg st entityName data auth = post_records w cfg st entityName data auth'"
  by (simp add: post_records_def)

lemma assertion_of_token_request: "assertion_of (token_request cfg a) = a"
  by (simp add: assertion_of_def token_request_def)

lemma getFo_miss_exchange_calls:
  "needs_refresh st (cacheKey w cfg a) (now_seconds w)
     \<Longrightarrow> exchange_calls (snd (snd (getFoAccessTokenFromObo w cfg st a))) = [token_request cfg a]"
  by (simp add: getFo_miss exchange_calls_def split: fetch_result.splits sum.splits)

lemma fetchFo_exchange_calls:
  "userToken st \<noteq> [] \<Longrightarrow>
   exchange_calls (snd (snd (fetchFo w cfg st pathname init)))
     = exchange_calls (snd (snd (getFoAccessTokenFromObo w cfg st (userToken st))))"
  by (auto simp: fetchFo_def getCurrentContext_def Let_def exchange_calls_def
           split: prod.splits sum.splits fetch_result.splits)

lemma write_outcome_exchange_calls:
  "exchange_calls (snd (snd (write_outcome verb r))) = exchange_calls (snd (snd r))"
  by (auto simp: write_outcome_def exchange_calls_def split: prod.splits sum.splits)

lemma post_records_exchange_calls:
  assumes "entityName \<noteq> []" and "header_token auth = Inr tokB" and "userToken st \<noteq> []"
  shows "exchange_calls (snd (snd (post_records w cfg st entityName data auth)))
           = exchange_calls (snd (snd (getFoAccessTokenFromObo w cfg st (userToken st))))"
proof -
  have "snd (snd (post_records w cfg st entityName data auth))
          = snd (snd (createRecord w cfg st entityName data))"
    using assms(1,2) by (auto simp: post_records_def split: prod.splits sum.splits)
  then show ?thesis
    using assms(3)
    by (simp add: createRecord_def write_outcome_exchange_calls fetchFo_exchange_calls)
qed

lemma readRecord_userToken:
  "userToken (fst (snd (readRecord w cfg st entityName query))) = userToken st"
proof -
  have "fst (snd (readRecord w cfg st entityName query))
          = fst (snd (fetchFo w cfg st (read_url entityName query)
              (Some \<lparr>init_method = Some ''GET'', init_headers = [], init_body = None\<rparr>)))"
    by (auto simp: readRecord_def Let_def split: prod.splits sum.splits)
  then show ?thesis by (simp add: fetchFo_userToken)
qed

lemma get_records_userToken:
  assumes "entityName \<noteq> []" and "header_token auth = Inr tokA"
  shows "userToken (fst (snd (get_records w cfg st entityName query auth))) = tokA"
proof -
  have "fst (snd (get_records w cfg st entityName query auth))
          = fst (snd (readRecord w cfg (setToken st tokA) entityName query))"
    using assms
    by (auto simp: get_records_def split: prod.splits sum.splits proxy_value.splits)
  then show ?thesis
    by (simp add: readRecord_userToken setToken_def)
qed

lemma example_bearer_tokens:
  "header_token (One ''Bearer token-A'') = Inr ''token-A''"
  "header_token (One ''Bearer token-B'') = Inr ''token-B''"
  by code_simp+

lemma lowered_names:
  "lower_str ''Authorization'' = ''authorization''"
  "lower_str ''Accept'' = ''accept''"
  "lower_str ''Content-Type'' = ''content-type''"
  by code_simp+

lemma fo_request_authorization:
  "headers_get (req_headers (fo_request cfg pathname init foToken)) ''Authorization''
     = Some (''Bearer '' @ foToken)"
  by (simp add: fo_request_def Let_def headers_get_def headers_set_def lowered_names
        AList.update_conv')

lemma example_post_downstream:
  "downstream_calls (snd (snd
      (post_records (example_world 1000 example_fo_200) example_config
         (setToken new_connector ''token-A'')
         ''EmployeesV2'' (Some ''{}'') (One ''Bearer token-B''))))
     = [fo_request example_config ''/data/EmployeesV2''
          (Some \<lparr>init_method = Some ''POST'', init_headers = [], init_body = Some ''{}''\<rparr>)
          ''fo-token-for-token-A'']"
  by (simp add: post_records_def example_bearer_tokens createRecord_def write_outcome_def
        fetchFo_def Let_def getCurrentContext_def setToken_def new_connector_def
        getFoAccessTokenFromObo_def cache_hit_def example_world_def example_idp_def
        example_fo_200_def resp_ok_def assertion_of_token_request downstream_calls_def)

text \<open>
  C1 does not hold of the code. Request A (\<open>GET\<close>, bearer \<open>token-A\<close>) stores its token in
  the connector's \<open>userToken\<close>. Request B (\<open>POST\<close>, bearer \<open>token-B\<close>), handled while A is
  still waiting for its token exchange or after A has finished, exchanges \<open>token-A\<close> and
  calls F&O with the access token obtained for \<open>token-A\<close> in its \<open>Authorization\<close>
  header.
\<close>

theorem post_request_uses_other_requests_assertion:
  "map assertion_of (exchange_calls (snd (snd
      (post_records (example_world 1000 example_fo_200) example_config
         (setToken new_connector ''token-A'')
         ''EmployeesV2'' (Some ''{}'') (One ''Bearer token-B''))))) = [''token-A'']
   \<and> userToken (fst (snd
      (get_records (example_world 1000 example_fo_200) example_config new_connector
         ''EmployeesV2'' None (One ''Bearer token-A'')))) = ''token-A''
   \<and> map assertion_of (exchange_calls (snd (snd
      (post_records (example_world 5000 example_fo_200) example_config
         (fst (snd (get_records (example_world 1000 example_fo_200) example_config new_connector
            ''EmployeesV2'' None (One ''Bearer token-A''))))
         ''EmployeesV2'' (Some ''{}'') (One ''Bearer token-B''))))) = [''token-A'']
   \<and> map (\<lambda>r. headers_get (req_headers r) ''Authorization'') (downstream_calls (snd (snd
      (post_records (example_world 1000 example_fo_200) example_config
         (setToken new_connector ''token-A'')
         ''EmployeesV2'' (Some ''{}'') (One ''Bearer token-B'')))))
       = [Some ''Bearer fo-token-for-token-A'']"
proof -
  let ?w = "example_world 1000 example_fo_200"
  let ?w' = "example_world 5000 example_fo_200"
  let ?stA = "fst (snd (get_records ?w example_config new_connector
                ''EmployeesV2'' None (One ''Bearer token-A'')))"
  have e: "''EmployeesV2'' \<noteq> []" "''token-A'' \<noteq> []" by simp_all
  have early: "userToken (setToken new_connector ''token-A'') = ''token-A''"
    by (simp add: setToken_def)
  have stale0: "needs_refresh (setToken new_connector ''token-A'')
                  (cacheKey ?w example_config ''token-A'') (now_seconds ?w)"
    by (simp add: needs_refresh_def setToken_def new_connector_def)
  have c1: "map assertion_of (exchange_calls (snd (snd
      (post_records ?w example_config (setToken new_connector ''token-A'')
         ''EmployeesV2'' (Some ''{}'') (One ''Bearer token-B''))))) = [''token-A'']"
    using post_records_exchange_calls [OF e(1) example_bearer_tokens(2), of
            "setToken new_connector ''token-A''" ?w example_config "Some ''{}''"]
          getFo_miss_exchange_calls [OF stale0]
    by (simp add: early assertion_of_token_request)
  have c2: "userToken ?stA = ''token-A''"
    by (rule get_records_userToken [OF e(1) example_bearer_tokens(1)])
  have stA: "oboCache ?stA (cacheKey ?w' example_config ''token-A'')
               = Some \<lparr>accessToken = ''fo-token-for-token-A'', expiresAt = 4600\<rparr>"
    by (simp add: get_records_def example_bearer_tokens readRecord_def fetchFo_def Let_def
          getCurrentContext_def setToken_def new_connector_def getFoAccessTokenFromObo_def
          cache_hit_def example_world_def example_idp_def example_fo_200_def resp_ok_def
          or_default_def assertion_of_token_request cacheKey_def)
  have stale: "needs_refresh ?stA (cacheKey ?w' example_config (userToken ?stA)) (now_seconds ?w')"
    by (simp add: c2 needs_refresh_def stA) (simp add: example_world_def)
  have c3: "map assertion_of (exchange_calls (snd (snd
      (post_records ?w' example_config ?stA
         ''EmployeesV2'' (Some ''{}'') (One ''Bearer token-B''))))) = [''token-A'']"
    using post_records_exchange_calls [OF e(1) example_bearer_tokens(2), of ?stA ?w'
            example_config "Some ''{}''"]
          getFo_miss_exchange_calls [OF stale]
    by (simp add: c2 assertion_of_token_request)
  have c4: "map (\<lambda>r. headers_get (req_headers r) ''Authorization'') (downstream_calls (snd (snd
      (post_records ?w example_config (setToken new_connector ''token-A'')
         ''EmployeesV2'' (Some ''{}'') (One ''Bearer token-B'')))))
       = [Some ''Bearer fo-token-for-token-A'']"
    by (simp add: example_post_downstream fo_request_authorization)
  show ?thesis
    by (intro conjI) (rule c1 c2 c3 c4)+
qed

end
